theory Spec2Isabelle
  imports Main
begin

section \<open>Data model of \<open>src/option.ts\<close>\<close>

text \<open>
  The class \<open>Option<T>\<close> has one private field, declared \<open>private value?: T\<close>: the slot
  holds either a value of \<open>T\<close> or JavaScript's \<open>undefined\<close>. The only test the class ever
  performs on the slot is strict (in)equality with \<open>undefined\<close>, so a run-time value is
  modelled as either \<open>Undefined\<close> or a defined value carrying a payload of an arbitrary
  type (numbers, text, \<open>null\<close>, objects, ...). An element type \<open>T\<close> that admits
  \<open>undefined\<close> (such as \<open>number | undefined\<close>) is a type whose values range over the whole
  of \<open>'a jsval\<close>.
\<close>

datatype 'a jsval = Undefined | Defined 'a

text \<open>The class: one field. The field is called \<open>value\<close> in the source.\<close>

datatype 'a Option = Option (value': "'a jsval")

text \<open>\<open>throw new Error(msg)\<close>: the built-in error class with its message.\<close>

datatype error = Error string

text \<open>
  A caller-supplied function may have side effects and may throw. It is a computation over
  a caller state \<open>'s\<close> that ends with a thrown value (\<open>Inl\<close>) or a result (\<open>Inr\<close>).
\<close>

type_synonym ('s, 'e, 'r) comp = "'s \<Rightarrow> ('e + 'r) \<times> 's"

section \<open>Operations\<close>

text \<open>\<open>static Some<T>(value: T): Option<T> { return new Option(value); }\<close>\<close>

definition Some_opt :: "'a jsval \<Rightarrow> 'a Option" where
  "Some_opt v = Option v"

text \<open>\<open>static None<T>(): Option<T> { return new Option<T>(undefined); }\<close>\<close>

definition None_opt :: "'a Option" where
  "None_opt = Option Undefined"

text \<open>\<open>isSome(): boolean { return this.value !== undefined; }\<close>\<close>

definition isSome :: "'a Option \<Rightarrow> bool" where
  "isSome this = (value' this \<noteq> Undefined)"

text \<open>\<open>isNone(): boolean { return this.value === undefined; }\<close>\<close>

definition isNone :: "'a Option \<Rightarrow> bool" where
  "isNone this = (value' this = Undefined)"

text \<open>
  \<^verbatim>\<open>
  unwrap(): T {
    if (this.isNone()) {
      throw new Error('Tried to unwrap an Option that is None');
    }
    return this.value as T;
  }
  \<close>
\<close>

definition unwrap :: "'a Option \<Rightarrow> error + 'a jsval" where
  "unwrap this =
     (if isNone this then Inl (Error ''Tried to unwrap an Option that is None'')
      else Inr (value' this))"

text \<open>\<open>unwrapOr(defaultValue: T): T { return this.isSome() ? (this.value as T) : defaultValue; }\<close>\<close>

definition unwrapOr :: "'a Option \<Rightarrow> 'a jsval \<Rightarrow> 'a jsval" where
  "unwrapOr this defaultValue = (if isSome this then value' this else defaultValue)"

text \<open>\<open>unwrapOrElse(fn: () => T): T { return this.isSome() ? (this.value as T) : fn(); }\<close>\<close>

definition unwrapOrElse :: "'a Option \<Rightarrow> ('s, 'e, 'a jsval) comp \<Rightarrow> ('s, 'e, 'a jsval) comp" where
  "unwrapOrElse this fn s = (if isSome this then (Inr (value' this), s) else fn s)"

text \<open>
  \<^verbatim>\<open>
  map<U>(fn: (value: T) => U): Option<U> {
    if (this.isSome()) {
      return Option.Some(fn(this.value as T));
    }
    return Option.None<U>();
  }
  \<close>
  When \<open>fn\<close> throws, the exception leaves \<open>map\<close> and no container is built.
\<close>

definition map_opt :: "'a Option \<Rightarrow> ('a jsval \<Rightarrow> ('s, 'e, 'b jsval) comp) \<Rightarrow> ('s, 'e, 'b Option) comp" where
  "map_opt this fn s =
     (if isSome this then
        (case fn (value' this) s of
           (Inl e, s') \<Rightarrow> (Inl e, s')
         | (Inr u, s') \<Rightarrow> (Inr (Some_opt u), s'))
      else (Inr None_opt, s))"

text \<open>\<open>orElse(fn: () => Option<T>): Option<T> { return this.isSome() ? this : fn(); }\<close>\<close>

definition orElse :: "'a Option \<Rightarrow> ('s, 'e, 'a Option) comp \<Rightarrow> ('s, 'e, 'a Option) comp" where
  "orElse this fn s = (if isSome this then (Inr this, s) else fn s)"

text \<open>
  \<^verbatim>\<open>
  match<U>(someFn: (value: T) => U, noneFn: () => U): U {
    return this.isSome() ? someFn(this.value as T) : noneFn();
  }
  \<close>
\<close>

definition match :: "'a Option \<Rightarrow> ('a jsval \<Rightarrow> ('s, 'e, 'u) comp) \<Rightarrow> ('s, 'e, 'u) comp \<Rightarrow> ('s, 'e, 'u) comp" where
  "match this someFn noneFn s = (if isSome this then someFn (value' this) s else noneFn s)"

section \<open>Observing calls\<close>

text \<open>
  To count how often an operation invokes a caller-supplied function, the function is
  wrapped the way a test spy wraps it: the caller state gets a counter, and every
  invocation of the wrapped function adds one to it, whether the function returns or throws.
\<close>

definition spy :: "('s, 'e, 'r) comp \<Rightarrow> ('s \<times> nat, 'e, 'r) comp" where
  "spy fn = (\<lambda>(s, n). case fn s of (r, s') \<Rightarrow> (r, (s', Suc n)))"

definition calls :: "('e + 'r) \<times> ('s \<times> nat) \<Rightarrow> nat" where
  "calls out = snd (snd out)"

section \<open>Sample callbacks\<close>

text \<open>
  The arrow functions of the source's test suite have no side effects and do not throw:
  \<open>() => 99\<close> is \<open>ret (Defined 99)\<close>, \<open>() => Option.Some(99)\<close> is
  \<open>ret (Some_opt (Defined 99))\<close>, and a one-argument arrow function \<open>(value) => f(value)\<close>
  with a side-effect free body \<open>f\<close> is \<open>lift f\<close>.
\<close>

definition ret :: "'r \<Rightarrow> ('s, 'e, 'r) comp" where
  "ret r = (\<lambda>s. (Inr r, s))"

definition lift :: "('a \<Rightarrow> 'r) \<Rightarrow> 'a \<Rightarrow> ('s, 'e, 'r) comp" where
  "lift f = (\<lambda>v. ret (f v))"

lemmas option_defs =
  Some_opt_def None_opt_def isSome_def isNone_def unwrap_def unwrapOr_def
  unwrapOrElse_def map_opt_def orElse_def match_def

section \<open>The slot decides the state\<close>

text \<open>
  A container is its slot, so two containers with the same slot cannot be told apart by
  any operation. The facts below are the cases the later proofs split on.
\<close>

lemma isSome_Some_opt: "isSome (Some_opt v) = (v \<noteq> Undefined)"
  by (simp add: isSome_def Some_opt_def)

lemma isNone_Some_opt: "isNone (Some_opt v) = (v = Undefined)"
  by (simp add: isNone_def Some_opt_def)

lemma value_Some_opt: "value' (Some_opt v) = v"
  by (simp add: Some_opt_def)

lemma isSome_None_opt: "\<not> isSome None_opt"
  by (simp add: isSome_def None_opt_def)

lemma isNone_None_opt: "isNone None_opt"
  by (simp add: isNone_def None_opt_def)

lemma isNone_iff_None_opt: "isNone this = (this = None_opt)"
  by (cases this) (simp add: isNone_def None_opt_def)

lemma calls_spy: "calls (spy fn (s, n)) = Suc n"
  by (simp add: spy_def calls_def split: prod.split)

text \<open>
  Zero, the empty text, the empty sequence and \<open>false\<close> are defined values: strict
  comparison with \<open>undefined\<close> tells them apart from it, so they are present.
\<close>

lemma empty_like_values_are_present:
  "isSome (Some_opt (Defined (0::int)))"
  "isSome (Some_opt (Defined ''''))"
  "isSome (Some_opt (Defined ([]::int list)))"
  "isSome (Some_opt (Defined False))"
  by (simp_all add: isSome_Some_opt)

section \<open>State predicates\<close>

text \<open>
  Claim C10. For every container, exactly one of \<open>isSome()\<close> and \<open>isNone()\<close> is true and
  \<open>isNone()\<close> is the negation of \<open>isSome()\<close>; \<open>None()\<close> answers \<open>isSome() = false\<close> and
  \<open>isNone() = true\<close>. Every value of the container type is covered, hence every container
  that \<open>Some\<close>, \<open>None\<close>, \<open>map\<close> and \<open>orElse\<close> can produce.
\<close>

theorem predicates_exclusive_total:
  "isNone this = (\<not> isSome this)
   \<and> (isSome this \<noteq> isNone this)
   \<and> \<not> isSome None_opt
   \<and> isNone None_opt"
  by (simp add: isSome_def isNone_def None_opt_def)

section \<open>Construction\<close>

text \<open>
  The input \<open>undefined\<close> is accepted by \<open>Some\<close> whenever the element type admits it, and the
  container built from it answers \<open>isSome() = false\<close> and \<open>isNone() = true\<close>.
\<close>

theorem Some_undefined_not_present_counterexample:
  "isSome (Some_opt (Undefined :: int jsval)) = False
   \<and> isNone (Some_opt (Undefined :: int jsval)) = True"
  by (simp add: isSome_Some_opt isNone_Some_opt)

text \<open>
  Claim C1, amended. \<open>Some(v)\<close> stores \<open>v\<close> as it is, without validation, and for every
  value \<open>v\<close> other than \<open>undefined\<close> (zero, empty text and the other empty-like values
  included) the container answers \<open>isSome() = true\<close> and \<open>isNone() = false\<close>.
\<close>

theorem Some_defined_is_present:
  "value' (Some_opt v) = v
   \<and> (v \<noteq> Undefined \<longrightarrow> isSome (Some_opt v) \<and> \<not> isNone (Some_opt v))"
  by (simp add: isSome_Some_opt isNone_Some_opt value_Some_opt)

theorem Some_defined_is_present_witness:
  "Defined (0::int) \<noteq> Undefined
   \<and> value' (Some_opt (Defined (0::int))) = Defined 0
   \<and> isSome (Some_opt (Defined (0::int)))
   \<and> \<not> isNone (Some_opt (Defined (0::int)))"
proof -
  have h: "Defined (0::int) \<noteq> Undefined" by simp
  show ?thesis
    using h Some_defined_is_present [of "Defined (0::int)"] by simp
qed

text \<open>
  Claim C3. \<open>Some(undefined)\<close> is the same container as \<open>None()\<close>, and every operation
  treats it as absent: \<open>isSome()\<close> is false, \<open>isNone()\<close> is true, \<open>unwrap()\<close> throws,
  \<open>unwrapOr(d)\<close> returns \<open>d\<close>, \<open>map(fn)\<close> returns an absent container and leaves the
  caller state as it was without a single call of \<open>fn\<close>, \<open>orElse(fn)\<close> is one call of
  \<open>fn\<close>, and \<open>match\<close> runs the \<open>None\<close> branch.
\<close>

theorem Some_undefined_is_None:
  "Some_opt Undefined = None_opt
   \<and> \<not> isSome (Some_opt Undefined)
   \<and> isNone (Some_opt Undefined)
   \<and> unwrap (Some_opt Undefined) = Inl (Error ''Tried to unwrap an Option that is None'')
   \<and> unwrapOr (Some_opt Undefined) d = d
   \<and> map_opt (Some_opt Undefined) fn s = (Inr None_opt, s)
   \<and> calls (map_opt (Some_opt Undefined) (\<lambda>v. spy (fn v)) (s, 0)) = 0
   \<and> orElse (Some_opt Undefined) g s = g s
   \<and> calls (orElse (Some_opt Undefined) (spy g) (s, 0)) = 1
   \<and> match (Some_opt Undefined) someFn noneFn s = noneFn s"
  by (simp add: option_defs calls_spy) (simp add: calls_def)

section \<open>Extraction\<close>

text \<open>\<open>Some(undefined).unwrap()\<close> throws instead of returning \<open>undefined\<close>.\<close>

theorem unwrap_Some_undefined_counterexample:
  "unwrap (Some_opt (Undefined :: int jsval))
     = Inl (Error ''Tried to unwrap an Option that is None'')"
  by (simp add: unwrap_def isNone_Some_opt)

text \<open>
  Claim C2, amended. For every value \<open>v\<close> other than \<open>undefined\<close>, \<open>Some(v).unwrap()\<close>
  returns \<open>v\<close> and does not throw.
\<close>

theorem unwrap_Some_defined:
  "v \<noteq> Undefined \<Longrightarrow> unwrap (Some_opt v) = Inr v"
  by (simp add: unwrap_def isNone_Some_opt value_Some_opt)

theorem unwrap_Some_defined_witness:
  "Defined (42::int) \<noteq> Undefined \<and> unwrap (Some_opt (Defined (42::int))) = Inr (Defined 42)"
proof -
  have h: "Defined (42::int) \<noteq> Undefined" by simp
  show ?thesis
    using h unwrap_Some_defined [OF h] by simp
qed

text \<open>
  Claim C4. \<open>unwrap()\<close> throws exactly when the container is absent (its slot is
  \<open>undefined\<close>, which is the container \<open>None()\<close>), and what it throws is the error with the
  message \<open>Tried to unwrap an Option that is None\<close>; otherwise it returns the slot.
  The operations that take caller functions throw nothing of their own: an exception
  leaves \<open>unwrapOrElse\<close>, \<open>map\<close>, \<open>orElse\<close> or \<open>match\<close> exactly when the operation called a
  caller function and that call threw, so with caller functions that return they always
  return. \<open>Some\<close>, \<open>None\<close>, \<open>isSome\<close>, \<open>isNone\<close> and \<open>unwrapOr\<close> contain no \<open>throw\<close> and no
  call; they are total functions with a plain result.
\<close>

theorem only_unwrap_raises:
  "(unwrap this = Inl (Error ''Tried to unwrap an Option that is None'')) = isNone this
   \<and> isl (unwrap this) = isNone this
   \<and> (unwrap this = Inr (value' this)) = isSome this
   \<and> isNone this = (this = None_opt)
   \<and> isl (fst (unwrapOrElse this fn s)) = (isNone this \<and> isl (fst (fn s)))
   \<and> isl (fst (map_opt this mapFn s)) = (isSome this \<and> isl (fst (mapFn (value' this) s)))
   \<and> isl (fst (orElse this orFn s)) = (isNone this \<and> isl (fst (orFn s)))
   \<and> isl (fst (match this someFn noneFn s))
       = (if isSome this then isl (fst (someFn (value' this) s)) else isl (fst (noneFn s)))"
proof -
  have some_none: "isSome this = (\<not> isNone this)"
    by (simp add: isSome_def isNone_def)
  have u: "(unwrap this = Inl (Error ''Tried to unwrap an Option that is None'')) = isNone this"
    "isl (unwrap this) = isNone this"
    "(unwrap this = Inr (value' this)) = isSome this"
    by (simp_all add: unwrap_def some_none)
  have e: "isl (fst (unwrapOrElse this fn s)) = (isNone this \<and> isl (fst (fn s)))"
    by (simp add: unwrapOrElse_def some_none)
  have m: "isl (fst (map_opt this mapFn s)) = (isSome this \<and> isl (fst (mapFn (value' this) s)))"
    by (simp add: map_opt_def split: prod.split sum.split)
  have o: "isl (fst (orElse this orFn s)) = (isNone this \<and> isl (fst (orFn s)))"
    by (simp add: orElse_def some_none)
  have d: "isl (fst (match this someFn noneFn s))
       = (if isSome this then isl (fst (someFn (value' this) s)) else isl (fst (noneFn s)))"
    by (simp add: match_def)
  from u e m o d isNone_iff_None_opt [of this] show ?thesis
    by blast
qed

text \<open>\<open>Some(undefined).unwrapOr(0)\<close> returns the default \<open>0\<close>, not the wrapped \<open>undefined\<close>.\<close>

theorem unwrapOr_Some_undefined_counterexample:
  "unwrapOr (Some_opt (Undefined :: int jsval)) (Defined 0) = Defined 0
   \<and> Defined (0::int) \<noteq> Undefined"
  by (simp add: unwrapOr_def isSome_Some_opt)

text \<open>
  Claim C8, amended. For every value \<open>v\<close> other than \<open>undefined\<close> and every default \<open>d\<close>,
  \<open>Some(v).unwrapOr(d)\<close> returns \<open>v\<close>; \<open>None().unwrapOr(d)\<close> returns \<open>d\<close>. The operation
  is a total function of the container and the default.
\<close>

theorem unwrapOr_laws:
  "(v \<noteq> Undefined \<longrightarrow> unwrapOr (Some_opt v) d = v)
   \<and> unwrapOr None_opt d = d"
  by (simp add: unwrapOr_def isSome_Some_opt isSome_None_opt value_Some_opt)

theorem unwrapOr_laws_witness:
  "Defined (42::int) \<noteq> Undefined
   \<and> unwrapOr (Some_opt (Defined (42::int))) (Defined 0) = Defined 42
   \<and> unwrapOr None_opt (Defined (0::int)) = Defined 0"
proof -
  have h: "Defined (42::int) \<noteq> Undefined" by simp
  show ?thesis
    using h unwrapOr_laws [of "Defined (42::int)" "Defined 0"] by simp
qed

text \<open>
  \<open>Some(undefined).unwrapOrElse(() => 99)\<close> calls the function once and returns \<open>99\<close>.
\<close>

theorem unwrapOrElse_Some_undefined_counterexample:
  "unwrapOrElse (Some_opt (Undefined :: int jsval)) (ret (Defined 99)) ()
     = (Inr (Defined 99) :: error + int jsval, ())
   \<and> calls (unwrapOrElse (Some_opt (Undefined :: int jsval))
        (spy (ret (Defined 99) :: (unit, error, int jsval) comp)) ((), 0)) = 1"
  by (simp add: unwrapOrElse_def isSome_Some_opt calls_spy) (simp add: ret_def)

text \<open>
  Claim C7, amended. For every value \<open>v\<close> other than \<open>undefined\<close> and every function
  \<open>fn\<close>, \<open>Some(v).unwrapOrElse(fn)\<close> returns \<open>v\<close>, leaves the caller state untouched and
  never calls \<open>fn\<close>; \<open>None().unwrapOrElse(fn)\<close> is exactly one call of \<open>fn\<close>: its result
  and its effect.
\<close>

theorem unwrapOrElse_lazy:
  "(v \<noteq> Undefined \<longrightarrow>
      unwrapOrElse (Some_opt v) fn s = (Inr v, s)
      \<and> calls (unwrapOrElse (Some_opt v) (spy fn) (s, 0)) = 0)
   \<and> unwrapOrElse None_opt fn s = fn s
   \<and> calls (unwrapOrElse None_opt (spy fn) (s, 0)) = 1"
  by (simp add: unwrapOrElse_def isSome_Some_opt isSome_None_opt value_Some_opt calls_spy)
     (simp add: calls_def)

theorem unwrapOrElse_lazy_witness:
  "Defined (42::int) \<noteq> Undefined
   \<and> unwrapOrElse (Some_opt (Defined (42::int))) (ret (Defined 99)) ()
       = (Inr (Defined 42) :: error + int jsval, ())
   \<and> calls (unwrapOrElse (Some_opt (Defined (42::int)))
        (spy (ret (Defined 99) :: (unit, error, int jsval) comp)) ((), 0)) = 0
   \<and> unwrapOrElse None_opt (ret (Defined (99::int))) ()
       = (Inr (Defined 99) :: error + int jsval, ())
   \<and> calls (unwrapOrElse None_opt
        (spy (ret (Defined (99::int)) :: (unit, error, int jsval) comp)) ((), 0)) = 1"
proof -
  have h: "Defined (42::int) \<noteq> Undefined" by simp
  show ?thesis
    using h unwrapOrElse_lazy [of "Defined (42::int)"
        "ret (Defined 99) :: (unit, error, int jsval) comp" "()"]
    by (simp add: ret_def)
qed

section \<open>Transformation\<close>

text \<open>
  Two inputs at which \<open>map\<close> does not return a present container: \<open>Some(undefined)\<close>
  mapped with \<open>(value) => 1\<close> is absent (the function is not called), and \<open>Some(1)\<close>
  mapped with \<open>(value) => undefined\<close> is absent too (the result is wrapped, and a wrapped
  \<open>undefined\<close> is absent), so \<open>unwrap()\<close> on either result throws.
\<close>

theorem map_undefined_counterexample:
  "map_opt (Some_opt (Undefined :: int jsval)) (lift (\<lambda>x. Defined (1::int))) ()
     = (Inr None_opt :: error + int Option, ())
   \<and> map_opt (Some_opt (Defined (1::int))) (lift (\<lambda>x. Undefined :: int jsval)) ()
     = (Inr None_opt :: error + int Option, ())
   \<and> isSome (None_opt :: int Option) = False
   \<and> unwrap (None_opt :: int Option)
     = Inl (Error ''Tried to unwrap an Option that is None'')"
  by (simp add: map_opt_def isSome_Some_opt value_Some_opt lift_def ret_def
      isSome_None_opt unwrap_def isNone_None_opt)
     (simp add: Some_opt_def None_opt_def)

text \<open>
  Claim C5, amended. For every value \<open>v\<close> other than \<open>undefined\<close> and every function
  \<open>fn\<close> whose call \<open>fn(v)\<close> returns a value \<open>u\<close> other than \<open>undefined\<close>, \<open>Some(v).map(fn)\<close>
  is one call of \<open>fn\<close> and returns a present container whose \<open>unwrap()\<close> is \<open>u\<close>.
  \<open>None().map(fn)\<close> is an absent container of the new element type, and \<open>fn\<close> is not
  called. For \<open>v\<close> other than \<open>undefined\<close>, \<open>Some(v).map(x => x)\<close> is present with value
  \<open>v\<close>.
\<close>

theorem map_laws:
  fixes fn :: "'a jsval \<Rightarrow> ('s, 'e, 'b jsval) comp"
  shows
  "(v \<noteq> Undefined \<and> fn v s = (Inr u, s') \<and> u \<noteq> Undefined \<longrightarrow>
      map_opt (Some_opt v) fn s = (Inr (Some_opt u), s')
      \<and> isSome (Some_opt u)
      \<and> unwrap (Some_opt u) = Inr u)
   \<and> (v \<noteq> Undefined \<longrightarrow> calls (map_opt (Some_opt v) (\<lambda>x. spy (fn x)) (s, 0)) = 1)
   \<and> map_opt None_opt fn s = (Inr None_opt, s)
   \<and> calls (map_opt None_opt (\<lambda>x. spy (fn x)) (s, 0)) = 0
   \<and> (v \<noteq> Undefined \<longrightarrow>
        map_opt (Some_opt v) (lift (\<lambda>x. x)) s = (Inr (Some_opt v) :: 'e + 'a Option, s)
        \<and> isSome (Some_opt v)
        \<and> unwrap (Some_opt v) = Inr v)"
proof -
  have present: "map_opt (Some_opt v) fn s = (Inr (Some_opt u), s')
      \<and> isSome (Some_opt u) \<and> unwrap (Some_opt u) = Inr u"
    if "v \<noteq> Undefined" "fn v s = (Inr u, s')" "u \<noteq> Undefined"
    using that
    by (simp add: map_opt_def isSome_Some_opt value_Some_opt unwrap_def isNone_Some_opt)
  have once: "calls (map_opt (Some_opt v) (\<lambda>x. spy (fn x)) (s, 0)) = 1"
    if "v \<noteq> Undefined"
    using that
    by (simp add: map_opt_def isSome_Some_opt value_Some_opt calls_def spy_def
        split: prod.splits sum.splits)
  have absent: "map_opt None_opt fn s = (Inr None_opt, s)"
    by (simp add: map_opt_def isSome_None_opt)
  have never: "calls (map_opt None_opt (\<lambda>x. spy (fn x)) (s, 0)) = 0"
    by (simp add: map_opt_def isSome_None_opt calls_def)
  have ident: "map_opt (Some_opt v) (lift (\<lambda>x. x)) s = (Inr (Some_opt v) :: 'e + 'a Option, s)
      \<and> isSome (Some_opt v) \<and> unwrap (Some_opt v) = Inr v"
    if "v \<noteq> Undefined"
    using that
    by (simp add: map_opt_def isSome_Some_opt value_Some_opt lift_def ret_def
        unwrap_def isNone_Some_opt)
  from present once absent never ident show ?thesis
    by blast
qed

theorem map_laws_witness:
  "Defined (42::int) \<noteq> Undefined
   \<and> lift (\<lambda>x. Defined (43::int)) (Defined (42::int)) () = (Inr (Defined 43) :: error + int jsval, ())
   \<and> Defined (43::int) \<noteq> Undefined
   \<and> map_opt (Some_opt (Defined (42::int))) (lift (\<lambda>x. Defined (43::int))) ()
       = (Inr (Some_opt (Defined 43)) :: error + int Option, ())
   \<and> isSome (Some_opt (Defined (43::int)))
   \<and> unwrap (Some_opt (Defined (43::int))) = Inr (Defined 43)
   \<and> calls (map_opt (Some_opt (Defined (42::int)))
        (\<lambda>x. spy (lift (\<lambda>x. Defined (43::int)) x :: (unit, error, int jsval) comp)) ((), 0)) = 1
   \<and> map_opt (Some_opt (Defined (42::int))) (lift (\<lambda>x. x)) ()
       = (Inr (Some_opt (Defined 42)) :: error + int Option, ())"
proof -
  have h: "Defined (42::int) \<noteq> Undefined" "Defined (43::int) \<noteq> Undefined"
    by simp_all
  have c: "lift (\<lambda>x. Defined (43::int)) (Defined (42::int)) ()
      = (Inr (Defined 43) :: error + int jsval, ())"
    by (simp add: lift_def ret_def)
  from h c
    map_laws [of "Defined (42::int)"
      "lift (\<lambda>x. Defined (43::int)) :: int jsval \<Rightarrow> (unit, error, int jsval) comp"
      "()" "Defined 43" "()"]
  show ?thesis
    by simp
qed

section \<open>Fallback chaining\<close>

text \<open>
  \<open>Some(undefined).orElse(() => Option.Some(99))\<close> calls the function once and returns
  its container, not the receiver.
\<close>

theorem orElse_Some_undefined_counterexample:
  "orElse (Some_opt (Undefined :: int jsval)) (ret (Some_opt (Defined 99))) ()
     = (Inr (Some_opt (Defined 99)) :: error + int Option, ())
   \<and> Some_opt (Defined (99::int)) \<noteq> Some_opt Undefined
   \<and> calls (orElse (Some_opt (Undefined :: int jsval))
        (spy (ret (Some_opt (Defined 99)) :: (unit, error, int Option) comp)) ((), 0)) = 1"
  by (simp add: orElse_def isSome_Some_opt calls_spy) (simp add: ret_def Some_opt_def)

text \<open>
  Claim C6, amended. For every value \<open>v\<close> other than \<open>undefined\<close> and every function
  \<open>fn\<close>, \<open>Some(v).orElse(fn)\<close> returns the receiver (same state, same wrapped value),
  leaves the caller state untouched and never calls \<open>fn\<close>; \<open>None().orElse(fn)\<close> is exactly
  one call of \<open>fn\<close> and returns the container that call produced.
\<close>

theorem orElse_short_circuit:
  "(v \<noteq> Undefined \<longrightarrow>
      orElse (Some_opt v) fn s = (Inr (Some_opt v), s)
      \<and> isSome (Some_opt v)
      \<and> value' (Some_opt v) = v
      \<and> calls (orElse (Some_opt v) (spy fn) (s, 0)) = 0)
   \<and> orElse None_opt fn s = fn s
   \<and> calls (orElse None_opt (spy fn) (s, 0)) = 1"
  by (simp add: orElse_def isSome_Some_opt isSome_None_opt value_Some_opt calls_spy)
     (simp add: calls_def)

theorem orElse_short_circuit_witness:
  "Defined (42::int) \<noteq> Undefined
   \<and> orElse (Some_opt (Defined (42::int))) (ret (Some_opt (Defined 99))) ()
       = (Inr (Some_opt (Defined 42)) :: error + int Option, ())
   \<and> calls (orElse (Some_opt (Defined (42::int)))
        (spy (ret (Some_opt (Defined 99)) :: (unit, error, int Option) comp)) ((), 0)) = 0
   \<and> orElse None_opt (ret (Some_opt (Defined (99::int)))) ()
       = (Inr (Some_opt (Defined 99)) :: error + int Option, ())
   \<and> calls (orElse None_opt
        (spy (ret (Some_opt (Defined (99::int))) :: (unit, error, int Option) comp)) ((), 0)) = 1"
proof -
  have h: "Defined (42::int) \<noteq> Undefined" by simp
  show ?thesis
    using h orElse_short_circuit [of "Defined (42::int)"
        "ret (Some_opt (Defined 99)) :: (unit, error, int Option) comp" "()"]
    by (simp add: ret_def)
qed

section \<open>Dispatch\<close>

text \<open>
  \<open>Some(undefined).match((value) => 1, () => 0)\<close> runs the \<open>None\<close> branch and returns
  \<open>0\<close>, while the \<open>Some\<close> branch applied to \<open>undefined\<close> returns \<open>1\<close>.
\<close>

theorem match_Some_undefined_counterexample:
  "match (Some_opt (Undefined :: int jsval)) (lift (\<lambda>x. 1)) (ret 0) ()
     = (Inr 0 :: error + int, ())
   \<and> lift (\<lambda>x. 1) (Undefined :: int jsval) () = (Inr 1 :: error + int, ())"
  by (simp add: match_def isSome_Some_opt lift_def ret_def)

text \<open>
  Claim C9, amended. For every container and every pair of branch functions, one call of
  \<open>match\<close> makes exactly one call of a branch, \<open>someFn\<close> applied to the slot when
  \<open>isSome()\<close> holds and \<open>noneFn\<close> otherwise, and returns what that call returns. So for
  every value \<open>v\<close> other than \<open>undefined\<close>, \<open>Some(v).match(someFn, noneFn)\<close> is
  \<open>someFn(v)\<close>, and \<open>None().match(someFn, noneFn)\<close> is \<open>noneFn()\<close>.
\<close>

theorem match_dispatch:
  "calls (match this (\<lambda>x. spy (someFn x)) (spy noneFn) (s, 0)) = 1
   \<and> (isSome this \<longrightarrow> match this someFn noneFn s = someFn (value' this) s)
   \<and> (isNone this \<longrightarrow> match this someFn noneFn s = noneFn s)
   \<and> (v \<noteq> Undefined \<longrightarrow> match (Some_opt v) someFn noneFn s = someFn v s)
   \<and> match None_opt someFn noneFn s = noneFn s"
  by (simp add: match_def isSome_Some_opt isSome_None_opt value_Some_opt calls_spy)
     (simp add: isSome_def isNone_def)

theorem match_dispatch_witness:
  "isSome (Some_opt (Defined (42::int)))
   \<and> Defined (42::int) \<noteq> Undefined
   \<and> isNone (None_opt :: int Option)
   \<and> calls (match (Some_opt (Defined (42::int)))
        (\<lambda>x. spy (lift (\<lambda>x. 1) x :: (unit, error, int) comp)) (spy (ret 0)) ((), 0)) = 1
   \<and> match (Some_opt (Defined (42::int))) (lift (\<lambda>x. 1)) (ret 0) ()
       = (Inr 1 :: error + int, ())
   \<and> match (None_opt :: int Option) (lift (\<lambda>x. 1)) (ret 0) ()
       = (Inr 0 :: error + int, ())"
proof -
  have h: "isSome (Some_opt (Defined (42::int)))" "Defined (42::int) \<noteq> Undefined"
    "isNone (None_opt :: int Option)"
    by (simp_all add: isSome_Some_opt isNone_None_opt)
  from h
    match_dispatch [of "Some_opt (Defined (42::int))"
      "lift (\<lambda>x. 1) :: int jsval \<Rightarrow> (unit, error, int) comp" "ret 0" "()" "Defined 42"]
    match_dispatch [of "None_opt :: int Option"
      "lift (\<lambda>x. 1) :: int jsval \<Rightarrow> (unit, error, int) comp" "ret 0" "()" "Defined 42"]
  show ?thesis
    by (simp add: lift_def ret_def value_Some_opt)
qed

end
